theory Spec2Isabelle
  imports Main "HOL-Library.Word"
begin

section \<open>Python values\<close>

text \<open>
  The client and the tools pass around JSON-like Python values. Scalars are dynamically
  typed in the source (\<open>Optional[str]\<close>, \<open>Union[int, str]\<close>, \<open>bool\<close> are only
  annotations), so every scalar argument is a \<open>pyval\<close>; arguments annotated \<open>dict\<close>,
  \<open>list\<close> and \<open>bytes\<close> are taken at that type. A dictionary is an association list in
  insertion order with string keys. Floats are left out: no request of the client holds one.
  Characters are read as Latin-1 code points.
\<close>

type_synonym bytes = "8 word list"

datatype pyval =
    PNone
  | PBool bool
  | PInt int
  | PStr string
  | PBytes bytes
  | PList "pyval list"
  | PDict "(string \<times> pyval) list"

type_synonym dict = "(string \<times> pyval) list"

text \<open>Truth value testing, as \<open>if x:\<close>, \<open>not x\<close> and \<open>x or y\<close> do it.\<close>

fun truthy :: "pyval \<Rightarrow> bool" where
  "truthy PNone = False"
| "truthy (PBool b) = b"
| "truthy (PInt i) = (i \<noteq> 0)"
| "truthy (PStr s) = (s \<noteq> [])"
| "truthy (PBytes b) = (b \<noteq> [])"
| "truthy (PList xs) = (xs \<noteq> [])"
| "truthy (PDict kvs) = (kvs \<noteq> [])"

definition py_or :: "pyval \<Rightarrow> pyval \<Rightarrow> pyval" where
  "py_or a b = (if truthy a then a else b)"

text \<open>An argument annotated \<open>Optional[dict]\<close> or \<open>Optional[list]\<close>, as a value.\<close>

definition opt_dict :: "dict option \<Rightarrow> pyval" where
  "opt_dict d = (case d of None \<Rightarrow> PNone | Some kvs \<Rightarrow> PDict kvs)"

definition opt_list :: "pyval list option \<Rightarrow> pyval" where
  "opt_list l = (case l of None \<Rightarrow> PNone | Some xs \<Rightarrow> PList xs)"

text \<open>\<open>d[k] = v\<close>: an existing key keeps its position, a new key goes last.\<close>

fun dict_set :: "'k \<Rightarrow> 'v \<Rightarrow> ('k \<times> 'v) list \<Rightarrow> ('k \<times> 'v) list" where
  "dict_set k v [] = [(k, v)]"
| "dict_set k v ((k', v') # kvs) =
     (if k' = k then (k, v) # kvs else (k', v') # dict_set k v kvs)"

text \<open>\<open>d.update(other)\<close> and \<open>{**d, **other}\<close> (the latter on a fresh copy of \<open>d\<close>).\<close>

definition dict_update :: "('k \<times> 'v) list \<Rightarrow> ('k \<times> 'v) list \<Rightarrow> ('k \<times> 'v) list" where
  "dict_update d other = fold (\<lambda>(k, v). dict_set k v) other d"

subsection \<open>\<open>str\<close>, \<open>repr\<close>, \<open>len\<close> and \<open>str.lower\<close>\<close>

definition digit_char :: "nat \<Rightarrow> char" where
  "digit_char d = char_of (48 + d)"

fun str_nat :: "nat \<Rightarrow> string" where
  "str_nat n =
     (if n < 10 then [digit_char n] else str_nat (n div 10) @ [digit_char (n mod 10)])"

declare str_nat.simps [simp del]

definition str_int :: "int \<Rightarrow> string" where
  "str_int i = (if i < 0 then CHR ''-'' # str_nat (nat (- i)) else str_nat (nat i))"

definition hex_char :: "nat \<Rightarrow> char" where
  "hex_char d = (if d < 10 then char_of (48 + d) else char_of (87 + d))"

definition esc_x :: "nat \<Rightarrow> string" where
  "esc_x n = [CHR 0x5C, CHR ''x'', hex_char (n div 16), hex_char (n mod 16)]"

text \<open>
  The quote \<open>repr\<close> picks: a double quote when the text holds a single quote and no
  double quote, a single quote otherwise.
\<close>

definition quote_for :: "string \<Rightarrow> char" where
  "quote_for s = (if CHR 0x27 \<in> set s \<and> CHR 0x22 \<notin> set s then CHR 0x22 else CHR 0x27)"

definition esc_common :: "char \<Rightarrow> char \<Rightarrow> string option" where
  "esc_common q c =
     (if c = q \<or> c = CHR 0x5C then Some [CHR 0x5C, c]
      else if c = CHR 0x09 then Some [CHR 0x5C, CHR ''t'']
      else if c = CHR 0x0A then Some [CHR 0x5C, CHR ''n'']
      else if c = CHR 0x0D then Some [CHR 0x5C, CHR ''r'']
      else None)"

definition esc_str_char :: "char \<Rightarrow> char \<Rightarrow> string" where
  "esc_str_char q c =
     (case esc_common q c of
        Some e \<Rightarrow> e
      | None \<Rightarrow>
          (let n = (of_char c :: nat) in
           if n < 32 \<or> n = 127 then esc_x n
           else if n < 127 then [c]
           else if n \<le> 160 \<or> n = 173 then esc_x n
           else [c]))"

definition repr_str :: "string \<Rightarrow> string" where
  "repr_str s = (let q = quote_for s in q # concat (map (esc_str_char q) s) @ [q])"

definition esc_byte :: "char \<Rightarrow> char \<Rightarrow> string" where
  "esc_byte q c =
     (case esc_common q c of
        Some e \<Rightarrow> e
      | None \<Rightarrow>
          (let n = (of_char c :: nat) in
           if n < 32 \<or> 127 \<le> n then esc_x n else [c]))"

definition repr_bytes :: "bytes \<Rightarrow> string" where
  "repr_bytes b =
     (let s = map (\<lambda>w. char_of (unat w)) b; q = quote_for s
      in CHR ''b'' # q # concat (map (esc_byte q) s) @ [q])"

fun join :: "string \<Rightarrow> string list \<Rightarrow> string" where
  "join sep [] = []"
| "join sep [x] = x"
| "join sep (x # y # ys) = x @ sep @ join sep (y # ys)"

fun py_repr :: "pyval \<Rightarrow> string" where
  "py_repr PNone = ''None''"
| "py_repr (PBool b) = (if b then ''True'' else ''False'')"
| "py_repr (PInt i) = str_int i"
| "py_repr (PStr s) = repr_str s"
| "py_repr (PBytes b) = repr_bytes b"
| "py_repr (PList xs) = ''['' @ join '', '' (map py_repr xs) @ '']''"
| "py_repr (PDict kvs) =
     ''{'' @ join '', '' (map (\<lambda>(k, v). repr_str k @ '': '' @ py_repr v) kvs) @ ''}''"

text \<open>\<open>str(x)\<close>, which is also what an f-string field \<open>{x}\<close> inserts.\<close>

definition py_str :: "pyval \<Rightarrow> string" where
  "py_str v = (case v of PStr s \<Rightarrow> s | _ \<Rightarrow> py_repr v)"

definition lower_char :: "char \<Rightarrow> char" where
  "lower_char c =
     (let n = (of_char c :: nat) in
      if (65 \<le> n \<and> n \<le> 90) \<or> (192 \<le> n \<and> n \<le> 222 \<and> n \<noteq> 215) then char_of (n + 32) else c)"

definition py_lower :: "string \<Rightarrow> string" where
  "py_lower s = map lower_char s"

datatype error =
    ValueError string
  | TypeError string
  | HTTPStatusError nat bytes
  | JSONDecodeError
  | TransportError string

fun type_name :: "pyval \<Rightarrow> string" where
  "type_name PNone = ''NoneType''"
| "type_name (PBool b) = ''bool''"
| "type_name (PInt i) = ''int''"
| "type_name (PStr s) = ''str''"
| "type_name (PBytes b) = ''bytes''"
| "type_name (PList xs) = ''list''"
| "type_name (PDict kvs) = ''dict''"

definition py_len :: "pyval \<Rightarrow> error + nat" where
  "py_len v =
     (case v of
        PStr s \<Rightarrow> Inr (length s)
      | PBytes b \<Rightarrow> Inr (length b)
      | PList xs \<Rightarrow> Inr (length xs)
      | PDict kvs \<Rightarrow> Inr (length kvs)
      | _ \<Rightarrow>
          Inl (TypeError
            (''object of type '' @ [CHR 0x27] @ type_name v @ [CHR 0x27] @ '' has no len()'')))"

definition nl :: char where
  "nl = CHR 0x0A"

section \<open>The API client\<close>

subsection \<open>Construction\<close>

text \<open>
  \<open>environ\<close> is the process environment after \<open>load_dotenv()\<close> has run.
  \<open>os.getenv(k)\<close> gives \<open>None\<close> for a variable that is not set, \<open>os.getenv(k, d)\<close>
  gives \<open>d\<close>.
\<close>

type_synonym environ = "string \<rightharpoonup> string"

definition getenv :: "environ \<Rightarrow> string \<Rightarrow> pyval" where
  "getenv env k = (case env k of None \<Rightarrow> PNone | Some s \<Rightarrow> PStr s)"

definition getenv_default :: "environ \<Rightarrow> string \<Rightarrow> string \<Rightarrow> pyval" where
  "getenv_default env k d = (case env k of None \<Rightarrow> PStr d | Some s \<Rightarrow> PStr s)"

record client =
  api_token :: pyval
  base_url :: pyval
  headers :: "(string \<times> string) list"

text \<open>
  \<open>WorkatoClient.__init__\<close>; the two arguments default to \<open>None\<close>. The constructor has
  no access to the network: it reads its arguments and the environment only.
\<close>

definition api_token_required :: string where
  "api_token_required =
     ''API token is required. Provide it as a parameter or set WORKATO_API_TOKEN environment variable.''"

definition WorkatoClient :: "environ \<Rightarrow> pyval \<Rightarrow> pyval \<Rightarrow> error + client" where
  "WorkatoClient env token_arg url_arg =
     (let token = py_or token_arg (getenv env ''WORKATO_API_TOKEN'') in
      if \<not> truthy token then
        Inl (ValueError api_token_required)
      else
        Inr \<lparr>api_token = token,
             base_url = py_or url_arg
               (getenv_default env ''WORKATO_BASE_URL'' ''https://www.workato.com/api''),
             headers = [(''Authorization'', ''Bearer '' @ py_str token),
                        (''Content-Type'', ''application/json'')]\<rparr>)"

subsection \<open>Requests and responses\<close>

text \<open>
  A request is written as the call that asks the HTTP client for it: the verb method, the
  URL and the keyword arguments. A keyword argument that is not given, or is given as
  \<open>None\<close>, is \<open>None\<close> here (\<open>kw\<close>); \<open>follow_redirects\<close> is off unless given.
\<close>

datatype verb = GET | PUT | POST | DELETE | PATCH

record request =
  verb :: verb
  url :: string
  hdrs :: "(string \<times> string) list"
  params :: "pyval option"
  json :: "pyval option"
  content :: "bytes option"
  follow_redirects :: bool

record response =
  status_code :: nat
  body :: bytes

definition kw :: "pyval \<Rightarrow> pyval option" where
  "kw v = (if v = PNone then None else Some v)"

definition req :: "verb \<Rightarrow> string \<Rightarrow> (string \<times> string) list \<Rightarrow> request" where
  "req m u h =
     \<lparr>verb = m, url = u, hdrs = h, params = None, json = None, content = None,
      follow_redirects = False\<rparr>"

text \<open>\<open>f"{self.base_url}<path>"\<close>\<close>

definition at :: "client \<Rightarrow> string \<Rightarrow> string" where
  "at c path = py_str (base_url c) @ path"

subsection \<open>One call per client method\<close>

datatype call =
    Get_recipes pyval
  | Get_recipe_details pyval
  | Start_recipe pyval
  | Stop_recipe pyval
  | Test_recipe pyval "dict option"
  | Create_recipe dict
  | Update_recipe pyval dict
  | Delete_recipe pyval
  | Get_jobs pyval pyval pyval
  | Get_job_details pyval
  | Get_folders
  | Get_connections
  | Get_connection_details pyval
  | Copy_recipe pyval pyval
  | Reset_recipe_trigger pyval
  | Update_recipe_connection pyval pyval pyval
  | Poll_recipe_now pyval
  | Get_recipe_versions pyval pyval pyval
  | Get_recipe_version_details pyval pyval
  | Update_recipe_version_comment pyval pyval pyval
  | Get_folder_assets pyval pyval pyval
  | Create_export_manifest dict
  | Update_export_manifest pyval dict
  | Get_export_manifest pyval
  | Delete_export_manifest pyval
  | Export_package pyval
  | Import_package pyval bytes pyval pyval pyval
  | Get_package pyval
  | Download_package pyval
  | Search_custom_connectors pyval
  | Get_custom_connector_code pyval
  | Generate_schema_from_json pyval
  | Generate_schema_from_csv pyval pyval
  | Create_custom_connector dict
  | Release_custom_connector pyval
  | Share_custom_connector pyval
  | Update_custom_connector pyval dict
  | List_connections pyval pyval pyval pyval "pyval list option"
  | Create_connection dict
  | Update_connection pyval dict
  | Disconnect_connection pyval pyval
  | Delete_connection pyval
  | List_lookup_tables pyval pyval
  | List_lookup_table_rows pyval pyval pyval "dict option"
  | Lookup_table_row pyval dict
  | Get_lookup_table_row pyval pyval
  | Add_lookup_table_row pyval dict
  | Create_lookup_table dict
  | Batch_delete_lookup_tables "pyval list"
  | Update_lookup_table_row pyval pyval dict
  | Delete_lookup_table_row pyval pyval

text \<open>
  The request each method builds. An argument the caller leaves out has the default of
  the signature: \<open>None\<close>, \<open>False\<close>, or the page numbers \<open>1\<close>, \<open>100\<close> and \<open>500\<close>.
\<close>

fun build :: "client \<Rightarrow> call \<Rightarrow> request" where
  "build c (Get_recipes include_tags) =
     (let params = [];
          params = (if truthy include_tags then dict_set ''includes[]'' (PStr ''tags'') params
                    else params)
      in (req GET (at c ''/recipes'') (headers c))\<lparr>params := kw (PDict params)\<rparr>)"
| "build c (Get_recipe_details recipe_id) =
     req GET (at c (''/recipes/'' @ py_str recipe_id)) (headers c)"
| "build c (Start_recipe recipe_id) =
     req PUT (at c (''/recipes/'' @ py_str recipe_id @ ''/start'')) (headers c)"
| "build c (Stop_recipe recipe_id) =
     req PUT (at c (''/recipes/'' @ py_str recipe_id @ ''/stop'')) (headers c)"
| "build c (Test_recipe recipe_id input_data) =
     (req POST (at c (''/recipes/'' @ py_str recipe_id @ ''/test_run'')) (headers c))
       \<lparr>json := kw (py_or (opt_dict input_data) (PDict []))\<rparr>"
| "build c (Create_recipe recipe_data) =
     (req POST (at c ''/recipes'') (headers c))
       \<lparr>json := kw (PDict [(''recipe'', PDict recipe_data)])\<rparr>"
| "build c (Update_recipe recipe_id recipe_data) =
     (req PUT (at c (''/recipes/'' @ py_str recipe_id)) (headers c))
       \<lparr>json := kw (PDict [(''recipe'', PDict recipe_data)])\<rparr>"
| "build c (Delete_recipe recipe_id) =
     req DELETE (at c (''/recipes/'' @ py_str recipe_id)) (headers c)"
| "build c (Get_jobs recipe_id status limit) =
     (let params = [];
          params = (if truthy recipe_id then dict_set ''recipe_id'' recipe_id params else params);
          params = (if truthy status then dict_set ''status'' status params else params);
          params = (if truthy limit then dict_set ''limit'' limit params else params)
      in (req GET (at c ''/jobs'') (headers c))\<lparr>params := kw (PDict params)\<rparr>)"
| "build c (Get_job_details job_id) =
     req GET (at c (''/jobs/'' @ py_str job_id)) (headers c)"
| "build c Get_folders = req GET (at c ''/folders'') (headers c)"
| "build c Get_connections = req GET (at c ''/connections'') (headers c)"
| "build c (Get_connection_details connection_id) =
     req GET (at c (''/connections/'' @ py_str connection_id)) (headers c)"
| "build c (Copy_recipe recipe_id folder_id) =
     (let payload = [];
          payload = (if truthy folder_id then dict_set ''folder_id'' folder_id payload
                     else payload)
      in (req POST (at c (''/recipes/'' @ py_str recipe_id @ ''/copy'')) (headers c))
           \<lparr>json := kw (if truthy (PDict payload) then PDict payload else PNone)\<rparr>)"
| "build c (Reset_recipe_trigger recipe_id) =
     req POST (at c (''/recipes/'' @ py_str recipe_id @ ''/reset_trigger'')) (headers c)"
| "build c (Update_recipe_connection recipe_id adapter_name connection_id) =
     (let payload = [(''adapter_name'', adapter_name), (''connection_id'', connection_id)]
      in (req PUT (at c (''/recipes/'' @ py_str recipe_id @ ''/connect'')) (headers c))
           \<lparr>json := kw (PDict payload)\<rparr>)"
| "build c (Poll_recipe_now recipe_id) =
     req POST (at c (''/recipes/'' @ py_str recipe_id @ ''/poll_now'')) (headers c)"
| "build c (Get_recipe_versions recipe_id page per_page) =
     (let params = [(''page'', page), (''per_page'', per_page)]
      in (req GET (at c (''/recipes/'' @ py_str recipe_id @ ''/versions'')) (headers c))
           \<lparr>params := kw (PDict params)\<rparr>)"
| "build c (Get_recipe_version_details recipe_id version_id) =
     req GET (at c (''/recipes/'' @ py_str recipe_id @ ''/versions/'' @ py_str version_id))
       (headers c)"
| "build c (Update_recipe_version_comment recipe_id version_id comment) =
     (let payload = [(''comment'', comment)]
      in (req PATCH
            (at c (''/recipes/'' @ py_str recipe_id @ ''/versions/'' @ py_str version_id))
            (headers c))
           \<lparr>json := kw (PDict payload)\<rparr>)"
| "build c (Get_folder_assets folder_id include_test_cases include_data) =
     (let params = [];
          params = (if folder_id \<noteq> PNone then dict_set ''folder_id'' folder_id params
                    else params);
          params = (if truthy include_test_cases
                    then dict_set ''include_test_cases''
                           (PStr (py_lower (py_str include_test_cases))) params
                    else params);
          params = (if truthy include_data
                    then dict_set ''include_data'' (PStr (py_lower (py_str include_data))) params
                    else params)
      in (req GET (at c ''/export_manifests/folder_assets'') (headers c))
           \<lparr>params := kw (PDict params)\<rparr>)"
| "build c (Create_export_manifest export_manifest) =
     (let payload = [(''export_manifest'', PDict export_manifest)]
      in (req POST (at c ''/export_manifests'') (headers c))\<lparr>json := kw (PDict payload)\<rparr>)"
| "build c (Update_export_manifest manifest_id export_manifest) =
     (let payload = [(''export_manifest'', PDict export_manifest)]
      in (req PUT (at c (''/export_manifests/'' @ py_str manifest_id)) (headers c))
           \<lparr>json := kw (PDict payload)\<rparr>)"
| "build c (Get_export_manifest manifest_id) =
     req GET (at c (''/export_manifests/'' @ py_str manifest_id)) (headers c)"
| "build c (Delete_export_manifest manifest_id) =
     req DELETE (at c (''/export_manifests/'' @ py_str manifest_id)) (headers c)"
| "build c (Export_package manifest_id) =
     req POST (at c (''/packages/export/'' @ py_str manifest_id)) (headers c)"
| "build c (Import_package folder_id file_bytes restart_recipes include_tags
              folder_id_for_home_assets) =
     (let params = [(''restart_recipes'', PStr (py_lower (py_str restart_recipes))),
                    (''include_tags'', PStr (py_lower (py_str include_tags)))];
          params = (if truthy folder_id_for_home_assets
                    then dict_set ''folder_id_for_home_assets'' folder_id_for_home_assets params
                    else params)
      in (req POST (at c (''/packages/import/'' @ py_str folder_id))
            (dict_update (headers c) [(''Content-Type'', ''application/octet-stream'')]))
           \<lparr>params := kw (PDict params), content := Some file_bytes\<rparr>)"
| "build c (Get_package package_id) =
     req GET (at c (''/packages/'' @ py_str package_id)) (headers c)"
| "build c (Download_package package_id) =
     (req GET (at c (''/packages/'' @ py_str package_id @ ''/download'')) (headers c))
       \<lparr>follow_redirects := True\<rparr>"
| "build c (Search_custom_connectors title) =
     (let payload = [(''title'', title)]
      in (req GET (at c ''/custom_connectors/search'') (headers c))
           \<lparr>json := kw (PDict payload)\<rparr>)"
| "build c (Get_custom_connector_code connector_id) =
     req GET (at c (''/custom_connectors/'' @ py_str connector_id @ ''/code'')) (headers c)"
| "build c (Generate_schema_from_json sample) =
     (let payload = [(''sample'', sample)]
      in (req POST (at c ''/sdk/generate_schema/json'') (headers c))
           \<lparr>json := kw (PDict payload)\<rparr>)"
| "build c (Generate_schema_from_csv sample col_sep) =
     (let payload = [(''sample'', sample)];
          payload = (if truthy col_sep then dict_set ''col_sep'' col_sep payload else payload)
      in (req POST (at c ''/sdk/generate_schema/csv'') (headers c))
           \<lparr>json := kw (PDict payload)\<rparr>)"
| "build c (Create_custom_connector connector) =
     (req POST (at c ''/custom_connectors'') (headers c))\<lparr>json := kw (PDict connector)\<rparr>"
| "build c (Release_custom_connector connector_id) =
     req POST (at c (''/custom_connectors/'' @ py_str connector_id @ ''/release'')) (headers c)"
| "build c (Share_custom_connector connector_id) =
     req POST (at c (''/custom_connectors/'' @ py_str connector_id @ ''/share'')) (headers c)"
| "build c (Update_custom_connector connector_id connector) =
     (req PUT (at c (''/custom_connectors/'' @ py_str connector_id)) (headers c))
       \<lparr>json := kw (PDict connector)\<rparr>"
| "build c (List_connections folder_id parent_id external_id include_runtime_connections
              includes) =
     (let params = [];
          params = (if truthy folder_id then dict_set ''folder_id'' folder_id params else params);
          params = (if truthy parent_id then dict_set ''parent_id'' parent_id params else params);
          params = (if truthy external_id then dict_set ''external_id'' external_id params
                    else params);
          params = (if truthy include_runtime_connections
                    then dict_set ''include_runtime_connections'' include_runtime_connections
                           params
                    else params);
          params = (if truthy (opt_list includes)
                    then dict_set ''includes[]'' (opt_list includes) params
                    else params)
      in (req GET (at c ''/connections'') (headers c))\<lparr>params := kw (PDict params)\<rparr>)"
| "build c (Create_connection connection) =
     (req POST (at c ''/connections'') (headers c))\<lparr>json := kw (PDict connection)\<rparr>"
| "build c (Update_connection connection_id connection) =
     (req PUT (at c (''/connections/'' @ py_str connection_id)) (headers c))
       \<lparr>json := kw (PDict connection)\<rparr>"
| "build c (Disconnect_connection connection_id force) =
     (let payload = (if truthy force then [(''force'', force)] else [])
      in (req POST (at c (''/connections/'' @ py_str connection_id @ ''/disconnect''))
            (headers c))
           \<lparr>json := kw (if truthy (PDict payload) then PDict payload else PNone)\<rparr>)"
| "build c (Delete_connection connection_id) =
     req DELETE (at c (''/connections/'' @ py_str connection_id)) (headers c)"
| "build c (List_lookup_tables page per_page) =
     (let params = [(''page'', page), (''per_page'', per_page)]
      in (req GET (at c ''/lookup_tables'') (headers c))\<lparr>params := kw (PDict params)\<rparr>)"
| "build c (List_lookup_table_rows lookup_table_id page per_page filters) =
     (let params = [(''page'', page), (''per_page'', per_page)];
          params = (if truthy (opt_dict filters)
                    then dict_update params (case filters of None \<Rightarrow> [] | Some kvs \<Rightarrow> kvs)
                    else params)
      in (req GET (at c (''/lookup_tables/'' @ py_str lookup_table_id @ ''/rows'')) (headers c))
           \<lparr>params := kw (PDict params)\<rparr>)"
| "build c (Lookup_table_row lookup_table_id filters) =
     (req GET (at c (''/lookup_tables/'' @ py_str lookup_table_id @ ''/lookup'')) (headers c))
       \<lparr>params := kw (PDict filters)\<rparr>"
| "build c (Get_lookup_table_row lookup_table_id row_id) =
     req GET (at c (''/lookup_tables/'' @ py_str lookup_table_id @ ''/rows/'' @ py_str row_id))
       (headers c)"
| "build c (Add_lookup_table_row lookup_table_id data) =
     (let payload = [(''data'', PDict data)]
      in (req POST (at c (''/lookup_tables/'' @ py_str lookup_table_id @ ''/rows'')) (headers c))
           \<lparr>json := kw (PDict payload)\<rparr>)"
| "build c (Create_lookup_table lookup_table) =
     (let payload = [(''lookup_table'', PDict lookup_table)]
      in (req POST (at c ''/lookup_tables'') (headers c))\<lparr>json := kw (PDict payload)\<rparr>)"
| "build c (Batch_delete_lookup_tables ids) =
     (let payload = [(''ids'', PList ids)]
      in (req POST (at c ''/lookup_tables/batch_delete'') (headers c))
           \<lparr>json := kw (PDict payload)\<rparr>)"
| "build c (Update_lookup_table_row lookup_table_id row_id data) =
     (let payload = [(''data'', PDict data)]
      in (req PUT
            (at c (''/lookup_tables/'' @ py_str lookup_table_id @ ''/rows/'' @ py_str row_id))
            (headers c))
           \<lparr>json := kw (PDict payload)\<rparr>)"
| "build c (Delete_lookup_table_row lookup_table_id row_id) =
     req DELETE
       (at c (''/lookup_tables/'' @ py_str lookup_table_id @ ''/rows/'' @ py_str row_id))
       (headers c)"

subsection \<open>Issuing the request\<close>

text \<open>
  The HTTP client and the remote platform are outside the repository. The transport
  answers a request that was issued with a response or with a failure of its own (no
  connection, a timeout); its answer may depend on the requests issued before. \<open>loads\<close>
  is the JSON decoder behind \<open>response.json()\<close>, \<open>None\<close> where the body is not JSON.

  \<open>raise_for_status\<close> raises on every status outside 200..299; the error carries the
  response, recorded here as its status and body.
\<close>

type_synonym transport = "request list \<Rightarrow> request \<Rightarrow> error + response"

type_synonym loads = "bytes \<Rightarrow> pyval option"

text \<open>
  The verb methods of the HTTP client do not take the same keywords: \<open>post\<close>, \<open>put\<close>
  and \<open>patch\<close> take a body (\<open>json\<close>, \<open>content\<close>), \<open>get\<close> and \<open>delete\<close> have no such
  parameter. A call that passes a keyword its method does not have raises \<open>TypeError\<close>
  when the call is made: no request exists yet and nothing reaches the transport. No method
  of the client passes \<open>None\<close> for a body keyword to \<open>get\<close> or \<open>delete\<close>, so a body
  keyword that is \<open>None\<close> in such a call was not given.
\<close>

definition takes_body :: "verb \<Rightarrow> bool" where
  "takes_body m =
     (case m of POST \<Rightarrow> True | PUT \<Rightarrow> True | PATCH \<Rightarrow> True | GET \<Rightarrow> False | DELETE \<Rightarrow> False)"

definition accepts :: "request \<Rightarrow> bool" where
  "accepts r = (takes_body (verb r) \<or> (json r = None \<and> content r = None))"

definition verb_name :: "verb \<Rightarrow> string" where
  "verb_name m =
     (case m of GET \<Rightarrow> ''get'' | PUT \<Rightarrow> ''put'' | POST \<Rightarrow> ''post'' | DELETE \<Rightarrow> ''delete''
      | PATCH \<Rightarrow> ''patch'')"

definition unexpected_keyword :: "request \<Rightarrow> error" where
  "unexpected_keyword r =
     TypeError
       (''AsyncClient.'' @ verb_name (verb r) @ ''() got an unexpected keyword argument ''
        @ [CHR 0x27] @ (if json r \<noteq> None then ''json'' else ''content'') @ [CHR 0x27])"

definition is_success :: "response \<Rightarrow> bool" where
  "is_success r = (200 \<le> status_code r \<and> status_code r \<le> 299)"

definition raise_for_status :: "response \<Rightarrow> error + response" where
  "raise_for_status r =
     (if is_success r then Inr r else Inl (HTTPStatusError (status_code r) (body r)))"

definition response_json :: "loads \<Rightarrow> response \<Rightarrow> error + pyval" where
  "response_json L r = (case L (body r) of None \<Rightarrow> Inl JSONDecodeError | Some v \<Rightarrow> Inr v)"

text \<open>
  What a method returns from a successful response: \<open>response.content\<close> in
  \<open>download_package\<close>, \<open>response.json()\<close> in every other method.
\<close>

definition returns :: "loads \<Rightarrow> call \<Rightarrow> response \<Rightarrow> error + pyval" where
  "returns L cl r =
     (case cl of Download_package package_id \<Rightarrow> Inr (PBytes (body r)) | _ \<Rightarrow> response_json L r)"

text \<open>
  The state a method runs in: the client object and the requests put on the wire so far,
  oldest first. Every method has the same shape: call the verb method of the HTTP client
  with the URL and the keywords, which issues the request once unless the call itself is
  refused, raise on a failure status, return the decoded body.
\<close>

record state =
  self :: client
  wire :: "request list"

definition perform :: "loads \<Rightarrow> transport \<Rightarrow> call \<Rightarrow> state \<Rightarrow> (error + pyval) \<times> state" where
  "perform L T cl s =
     (let r = build (self s) cl in
      if \<not> accepts r then (Inl (unexpected_keyword r), s)
      else
        (let s' = s\<lparr>wire := wire s @ [r]\<rparr>
         in case T (wire s) r of
              Inl e \<Rightarrow> (Inl e, s')
            | Inr response \<Rightarrow>
                (case raise_for_status response of
                   Inl e \<Rightarrow> (Inl e, s')
                 | Inr ok \<Rightarrow> (returns L cl ok, s'))))"

text \<open>Calls made one after the other on the same client.\<close>

fun perform_all :: "loads \<Rightarrow> transport \<Rightarrow> call list \<Rightarrow> state \<Rightarrow> state" where
  "perform_all L T [] s = s"
| "perform_all L T (cl # cls) s = perform_all L T cls (snd (perform L T cl s))"

section \<open>The tool registry\<close>

text \<open>
  Each tool module creates its own \<open>workato_client = WorkatoClient()\<close> when it is
  imported, and its tools call that client. A tool is modelled from the point where the
  runtime calls its function: the arguments are the values it passes, defaults filled in.
\<close>

datatype tool_module =
    Recipes
  | Recipe_lifecycle_management
  | Custom_connector_sdk
  | Connections
  | Lookup_tables

record server =
  recipes_client :: client
  lifecycle_client :: client
  sdk_client :: client
  connections_client :: client
  lookup_client :: client
  net :: "request list"

fun client_of :: "tool_module \<Rightarrow> server \<Rightarrow> client" where
  "client_of Recipes srv = recipes_client srv"
| "client_of Recipe_lifecycle_management srv = lifecycle_client srv"
| "client_of Custom_connector_sdk srv = sdk_client srv"
| "client_of Connections srv = connections_client srv"
| "client_of Lookup_tables srv = lookup_client srv"

fun put_client :: "tool_module \<Rightarrow> client \<Rightarrow> server \<Rightarrow> server" where
  "put_client Recipes c srv = srv\<lparr>recipes_client := c\<rparr>"
| "put_client Recipe_lifecycle_management c srv = srv\<lparr>lifecycle_client := c\<rparr>"
| "put_client Custom_connector_sdk c srv = srv\<lparr>sdk_client := c\<rparr>"
| "put_client Connections c srv = srv\<lparr>connections_client := c\<rparr>"
| "put_client Lookup_tables c srv = srv\<lparr>lookup_client := c\<rparr>"

text \<open>\<open>await workato_client.<method>(...)\<close> inside a tool of module \<open>m\<close>.\<close>

definition await :: "tool_module \<Rightarrow> loads \<Rightarrow> transport \<Rightarrow> call \<Rightarrow> server
    \<Rightarrow> (error + pyval) \<times> server" where
  "await m L T cl srv =
     (case perform L T cl \<lparr>self = client_of m srv, wire = net srv\<rparr> of
        (r, s') \<Rightarrow> (r, put_client m (self s') (srv\<lparr>net := wire s'\<rparr>)))"

text \<open>
  The rest of a tool body: an exception of the awaited call leaves the tool as it is,
  a result goes through the \<open>return\<close> expression.
\<close>

definition returning :: "(error + pyval) \<times> server \<Rightarrow> (pyval \<Rightarrow> error + pyval)
    \<Rightarrow> (error + pyval) \<times> server" where
  "returning r f = (case r of (Inl e, srv') \<Rightarrow> (Inl e, srv') | (Inr v, srv') \<Rightarrow> (f v, srv'))"

definition labelled :: "string \<Rightarrow> pyval \<Rightarrow> error + pyval" where
  "labelled label v = Inr (PStr (label @ py_str v))"

text \<open>The two pydantic models of the tool arguments.\<close>

record RecipeData =
  recipe_name :: string
  recipe_code :: string
  recipe_folder_id :: "int option"
  recipe_description :: "string option"

record TestRecipeInput =
  test_recipe_id :: pyval
  test_input_data :: "dict option"

text \<open>\<open>recipe.dict(exclude_none=True)\<close>\<close>

definition dict_exclude_none :: "RecipeData \<Rightarrow> dict" where
  "dict_exclude_none recipe =
     [(''name'', PStr (recipe_name recipe)), (''code'', PStr (recipe_code recipe))]
     @ (case recipe_folder_id recipe of None \<Rightarrow> [] | Some i \<Rightarrow> [(''folder_id'', PInt i)])
     @ (case recipe_description recipe of None \<Rightarrow> [] | Some d \<Rightarrow> [(''description'', PStr d)])"

datatype tool_call =
    Tool_list_recipes pyval
  | Tool_get_recipe pyval
  | Tool_start_recipe pyval
  | Tool_stop_recipe pyval
  | Tool_test_recipe TestRecipeInput
  | Tool_create_recipe RecipeData
  | Tool_update_recipe pyval RecipeData
  | Tool_delete_recipe pyval
  | Tool_copy_recipe pyval pyval
  | Tool_reset_recipe_trigger pyval
  | Tool_update_recipe_connection pyval pyval pyval
  | Tool_poll_recipe_now pyval
  | Tool_get_recipe_versions pyval pyval pyval
  | Tool_get_recipe_version_details pyval pyval
  | Tool_update_recipe_version_comment pyval pyval pyval
  | Tool_get_folder_assets pyval pyval pyval
  | Tool_create_export_manifest dict
  | Tool_update_export_manifest pyval dict
  | Tool_get_export_manifest pyval
  | Tool_delete_export_manifest pyval
  | Tool_export_package pyval
  | Tool_import_package pyval bytes pyval pyval pyval
  | Tool_get_package pyval
  | Tool_download_package pyval
  | Tool_search_custom_connectors pyval
  | Tool_get_custom_connector_code pyval
  | Tool_generate_schema_from_json pyval
  | Tool_generate_schema_from_csv pyval pyval
  | Tool_create_custom_connector dict
  | Tool_release_custom_connector pyval
  | Tool_share_custom_connector pyval
  | Tool_update_custom_connector pyval dict
  | Tool_list_connections pyval pyval pyval pyval "pyval list option"
  | Tool_create_connection dict
  | Tool_update_connection pyval dict
  | Tool_disconnect_connection pyval pyval
  | Tool_delete_connection pyval
  | Tool_list_lookup_tables pyval pyval
  | Tool_list_lookup_table_rows pyval pyval pyval "dict option"
  | Tool_lookup_table_row pyval dict
  | Tool_get_lookup_table_row pyval pyval
  | Tool_add_lookup_table_row pyval dict
  | Tool_create_lookup_table dict
  | Tool_batch_delete_lookup_tables "pyval list"
  | Tool_update_lookup_table_row pyval pyval dict
  | Tool_delete_lookup_table_row pyval pyval

text \<open>\<open>f"Found {len(recipes)} recipes:\n\n{recipes}"\<close>; \<open>len\<close> raises on a value without length.\<close>

definition found :: "string \<Rightarrow> pyval \<Rightarrow> error + pyval" where
  "found what v =
     (case py_len v of
        Inl e \<Rightarrow> Inl e
      | Inr n \<Rightarrow> Inr (PStr (''Found '' @ str_nat n @ '' '' @ what @ '':'' @ [nl, nl] @ py_str v)))"

fun tool :: "loads \<Rightarrow> transport \<Rightarrow> tool_call \<Rightarrow> server \<Rightarrow> (error + pyval) \<times> server" where
  "tool L T (Tool_list_recipes include_tags) srv =
     returning (await Recipes L T (Get_recipes include_tags) srv) (found ''recipes'')"
| "tool L T (Tool_get_recipe recipe_id) srv =
     returning (await Recipes L T (Get_recipe_details recipe_id) srv)
       (labelled (''Recipe details:'' @ [nl, nl]))"
| "tool L T (Tool_start_recipe recipe_id) srv =
     returning (await Recipes L T (Start_recipe recipe_id) srv)
       (labelled ''Start recipe result: '')"
| "tool L T (Tool_stop_recipe recipe_id) srv =
     returning (await Recipes L T (Stop_recipe recipe_id) srv)
       (labelled ''Stop recipe result: '')"
| "tool L T (Tool_test_recipe input) srv =
     returning
       (await Recipes L T (Test_recipe (test_recipe_id input) (test_input_data input)) srv)
       (labelled ''Test recipe result: '')"
| "tool L T (Tool_create_recipe recipe) srv =
     (let recipe_data = dict_exclude_none recipe
      in returning (await Recipes L T (Create_recipe recipe_data) srv)
           (labelled ''Created recipe: ''))"
| "tool L T (Tool_update_recipe recipe_id recipe) srv =
     (let recipe_data = dict_exclude_none recipe
      in returning (await Recipes L T (Update_recipe recipe_id recipe_data) srv)
           (labelled ''Updated recipe: ''))"
| "tool L T (Tool_delete_recipe recipe_id) srv =
     returning (await Recipes L T (Delete_recipe recipe_id) srv)
       (labelled ''Delete recipe result: '')"
| "tool L T (Tool_copy_recipe recipe_id folder_id) srv =
     returning (await Recipes L T (Copy_recipe recipe_id folder_id) srv)
       (labelled ''Copy recipe result: '')"
| "tool L T (Tool_reset_recipe_trigger recipe_id) srv =
     returning (await Recipes L T (Reset_recipe_trigger recipe_id) srv)
       (labelled ''Reset recipe trigger result: '')"
| "tool L T (Tool_update_recipe_connection recipe_id adapter_name connection_id) srv =
     returning
       (await Recipes L T (Update_recipe_connection recipe_id adapter_name connection_id) srv)
       (labelled ''Update recipe connection result: '')"
| "tool L T (Tool_poll_recipe_now recipe_id) srv =
     returning (await Recipes L T (Poll_recipe_now recipe_id) srv)
       (labelled ''Poll recipe now result: '')"
| "tool L T (Tool_get_recipe_versions recipe_id page per_page) srv =
     returning (await Recipes L T (Get_recipe_versions recipe_id page per_page) srv)
       (labelled ''Recipe versions: '')"
| "tool L T (Tool_get_recipe_version_details recipe_id version_id) srv =
     returning (await Recipes L T (Get_recipe_version_details recipe_id version_id) srv)
       (labelled ''Recipe version details: '')"
| "tool L T (Tool_update_recipe_version_comment recipe_id version_id comment) srv =
     returning
       (await Recipes L T (Update_recipe_version_comment recipe_id version_id comment) srv)
       (labelled ''Update recipe version comment result: '')"
| "tool L T (Tool_get_folder_assets folder_id include_test_cases include_data) srv =
     returning
       (await Recipe_lifecycle_management L T
          (Get_folder_assets folder_id include_test_cases include_data) srv)
       (labelled ''Folder assets: '')"
| "tool L T (Tool_create_export_manifest export_manifest) srv =
     returning
       (await Recipe_lifecycle_management L T (Create_export_manifest export_manifest) srv)
       (labelled ''Created export manifest: '')"
| "tool L T (Tool_update_export_manifest manifest_id export_manifest) srv =
     returning
       (await Recipe_lifecycle_management L T
          (Update_export_manifest manifest_id export_manifest) srv)
       (labelled ''Updated export manifest: '')"
| "tool L T (Tool_get_export_manifest manifest_id) srv =
     returning (await Recipe_lifecycle_management L T (Get_export_manifest manifest_id) srv)
       (labelled ''Export manifest: '')"
| "tool L T (Tool_delete_export_manifest manifest_id) srv =
     returning (await Recipe_lifecycle_management L T (Delete_export_manifest manifest_id) srv)
       (labelled ''Delete export manifest result: '')"
| "tool L T (Tool_export_package manifest_id) srv =
     returning (await Recipe_lifecycle_management L T (Export_package manifest_id) srv)
       (labelled ''Export package result: '')"
| "tool L T (Tool_import_package folder_id file_bytes restart_recipes include_tags
               folder_id_for_home_assets) srv =
     returning
       (await Recipe_lifecycle_management L T
          (Import_package folder_id file_bytes restart_recipes include_tags
             folder_id_for_home_assets) srv)
       (labelled ''Import package result: '')"
| "tool L T (Tool_get_package package_id) srv =
     returning (await Recipe_lifecycle_management L T (Get_package package_id) srv)
       (labelled ''Package details: '')"
| "tool L T (Tool_download_package package_id) srv =
     returning (await Recipe_lifecycle_management L T (Download_package package_id) srv) Inr"
| "tool L T (Tool_search_custom_connectors title) srv =
     returning (await Custom_connector_sdk L T (Search_custom_connectors title) srv)
       (labelled ''Custom connector search result: '')"
| "tool L T (Tool_get_custom_connector_code connector_id) srv =
     returning (await Custom_connector_sdk L T (Get_custom_connector_code connector_id) srv)
       (labelled ''Custom connector code: '')"
| "tool L T (Tool_generate_schema_from_json sample) srv =
     returning (await Custom_connector_sdk L T (Generate_schema_from_json sample) srv)
       (labelled ''Generated schema from JSON: '')"
| "tool L T (Tool_generate_schema_from_csv sample col_sep) srv =
     returning (await Custom_connector_sdk L T (Generate_schema_from_csv sample col_sep) srv)
       (labelled ''Generated schema from CSV: '')"
| "tool L T (Tool_create_custom_connector connector) srv =
     returning (await Custom_connector_sdk L T (Create_custom_connector connector) srv)
       (labelled ''Created custom connector: '')"
| "tool L T (Tool_release_custom_connector connector_id) srv =
     returning (await Custom_connector_sdk L T (Release_custom_connector connector_id) srv)
       (labelled ''Release custom connector result: '')"
| "tool L T (Tool_share_custom_connector connector_id) srv =
     returning (await Custom_connector_sdk L T (Share_custom_connector connector_id) srv)
       (labelled ''Share custom connector result: '')"
| "tool L T (Tool_update_custom_connector connector_id connector) srv =
     returning
       (await Custom_connector_sdk L T (Update_custom_connector connector_id connector) srv)
       (labelled ''Updated custom connector: '')"
| "tool L T (Tool_list_connections folder_id parent_id external_id
               include_runtime_connections includes) srv =
     returning
       (await Connections L T
          (List_connections folder_id parent_id external_id include_runtime_connections
             includes) srv)
       (labelled ''Connections: '')"
| "tool L T (Tool_create_connection connection) srv =
     returning (await Connections L T (Create_connection connection) srv)
       (labelled ''Created connection: '')"
| "tool L T (Tool_update_connection connection_id connection) srv =
     returning (await Connections L T (Update_connection connection_id connection) srv)
       (labelled ''Updated connection: '')"
| "tool L T (Tool_disconnect_connection connection_id force) srv =
     returning (await Connections L T (Disconnect_connection connection_id force) srv)
       (labelled ''Disconnect connection result: '')"
| "tool L T (Tool_delete_connection connection_id) srv =
     returning (await Connections L T (Delete_connection connection_id) srv)
       (labelled ''Delete connection result: '')"
| "tool L T (Tool_list_lookup_tables page per_page) srv =
     returning (await Lookup_tables L T (List_lookup_tables page per_page) srv)
       (labelled ''Lookup tables: '')"
| "tool L T (Tool_list_lookup_table_rows lookup_table_id page per_page filters) srv =
     returning
       (await Lookup_tables L T (List_lookup_table_rows lookup_table_id page per_page filters)
          srv)
       (labelled ''Lookup table rows: '')"
| "tool L T (Tool_lookup_table_row lookup_table_id filters) srv =
     returning (await Lookup_tables L T (Lookup_table_row lookup_table_id filters) srv)
       (labelled ''Lookup table row: '')"
| "tool L T (Tool_get_lookup_table_row lookup_table_id row_id) srv =
     returning (await Lookup_tables L T (Get_lookup_table_row lookup_table_id row_id) srv)
       (labelled ''Lookup table row: '')"
| "tool L T (Tool_add_lookup_table_row lookup_table_id data) srv =
     returning (await Lookup_tables L T (Add_lookup_table_row lookup_table_id data) srv)
       (labelled ''Added lookup table row: '')"
| "tool L T (Tool_create_lookup_table lookup_table) srv =
     returning (await Lookup_tables L T (Create_lookup_table lookup_table) srv)
       (labelled ''Created lookup table: '')"
| "tool L T (Tool_batch_delete_lookup_tables ids) srv =
     returning (await Lookup_tables L T (Batch_delete_lookup_tables ids) srv)
       (labelled ''Batch delete result: '')"
| "tool L T (Tool_update_lookup_table_row lookup_table_id row_id data) srv =
     returning
       (await Lookup_tables L T (Update_lookup_table_row lookup_table_id row_id data) srv)
       (labelled ''Updated lookup table row: '')"
| "tool L T (Tool_delete_lookup_table_row lookup_table_id row_id) srv =
     returning (await Lookup_tables L T (Delete_lookup_table_row lookup_table_id row_id) srv)
       (labelled ''Delete lookup table row result: '')"

section \<open>Server start\<close>

text \<open>
  \<open>server.py\<close>, top to bottom: importing the five tool modules constructs their clients,
  then the environment is validated, then the tools are registered.
\<close>

definition required_env_vars :: "string list" where
  "required_env_vars = [''WORKATO_API_TOKEN'', ''WORKATO_BASE_URL'']"

definition missing_vars :: "environ \<Rightarrow> string list" where
  "missing_vars env = filter (\<lambda>var. \<not> truthy (getenv env var)) required_env_vars"

definition import_tool_modules :: "environ \<Rightarrow> error + server" where
  "import_tool_modules env =
     (case WorkatoClient env PNone PNone of
        Inl e \<Rightarrow> Inl e
      | Inr c1 \<Rightarrow>
      (case WorkatoClient env PNone PNone of
        Inl e \<Rightarrow> Inl e
      | Inr c2 \<Rightarrow>
      (case WorkatoClient env PNone PNone of
        Inl e \<Rightarrow> Inl e
      | Inr c3 \<Rightarrow>
      (case WorkatoClient env PNone PNone of
        Inl e \<Rightarrow> Inl e
      | Inr c4 \<Rightarrow>
      (case WorkatoClient env PNone PNone of
        Inl e \<Rightarrow> Inl e
      | Inr c5 \<Rightarrow>
          Inr \<lparr>recipes_client = c1, lifecycle_client = c2, sdk_client = c3,
               connections_client = c4, lookup_client = c5, net = []\<rparr>)))))"

definition server_start :: "environ \<Rightarrow> error + server" where
  "server_start env =
     (case import_tool_modules env of
        Inl e \<Rightarrow> Inl e
      | Inr srv \<Rightarrow>
          if missing_vars env \<noteq> [] then
            Inl (ValueError
              (''Missing required environment variables: '' @ join '', '' (missing_vars env)))
          else Inr srv)"

section \<open>The list-jobs tool\<close>

text \<open>
  Modelled from the spec: the \<open>list_jobs\<close> tool, which the tests import and no module
  under the source tree defines. The spec has it call the jobs operation of the client
  with its three arguments and return a string holding the count and the list of the job
  records; the wording of the string follows the \<open>list_recipes\<close> tool.
\<close>

definition list_jobs :: "loads \<Rightarrow> transport \<Rightarrow> pyval \<Rightarrow> pyval \<Rightarrow> pyval \<Rightarrow> state
    \<Rightarrow> (error + pyval) \<times> state" where
  "list_jobs L T recipe_id status limit s =
     (case perform L T (Get_jobs recipe_id status limit) s of
        (Inl e, s') \<Rightarrow> (Inl e, s')
      | (Inr jobs, s') \<Rightarrow> (found ''jobs'' jobs, s'))"

section \<open>Observations and fixtures\<close>

text \<open>The requests one call adds to the wire: the requests it issues.\<close>

definition sent :: "loads \<Rightarrow> transport \<Rightarrow> call \<Rightarrow> state \<Rightarrow> request list" where
  "sent L T cl s = drop (length (wire s)) (wire (snd (perform L T cl s)))"

definition is_search :: "call \<Rightarrow> bool" where
  "is_search cl = (case cl of Search_custom_connectors title \<Rightarrow> True | _ \<Rightarrow> False)"

definition is_import_package :: "call \<Rightarrow> bool" where
  "is_import_package cl = (case cl of Import_package a b c d e \<Rightarrow> True | _ \<Rightarrow> False)"


text \<open>The fixture of \<open>tests/test_client.py\<close> and its sample jobs.\<close>

definition test_environ :: environ where
  "test_environ =
     [''WORKATO_API_TOKEN'' \<mapsto> ''test_token'',
      ''WORKATO_BASE_URL'' \<mapsto> ''https://test.workato.com/api'']"

definition test_client :: client where
  "test_client =
     \<lparr>api_token = PStr ''test_token'', base_url = PStr ''https://test.workato.com/api'',
      headers = [(''Authorization'', ''Bearer test_token''),
                 (''Content-Type'', ''application/json'')]\<rparr>"


definition SAMPLE_JOBS :: "pyval list" where
  "SAMPLE_JOBS =
     [PDict [(''id'', PInt 101), (''recipe_id'', PInt 1), (''status'', PStr ''success'')],
      PDict [(''id'', PInt 102), (''recipe_id'', PInt 1), (''status'', PStr ''error'')]]"

text \<open>A transport that answers every request with the same response.\<close>

definition always :: "nat \<Rightarrow> bytes \<Rightarrow> transport" where
  "always code b = (\<lambda>history r. Inr \<lparr>status_code = code, body = b\<rparr>)"

section \<open>Properties\<close>

subsection \<open>One request per call\<close>

lemma accepts_build: "accepts (build c cl) = (\<not> is_search cl)"
  by (cases cl) (simp_all add: accepts_def takes_body_def is_search_def req_def kw_def Let_def)

lemma perform_state:
  "snd (perform L T cl s)
     = s\<lparr>wire := wire s @ (if accepts (build (self s) cl) then [build (self s) cl] else [])\<rparr>"
  by (simp add: perform_def Let_def split: sum.splits)

lemma perform_refused:
  "\<not> accepts (build (self s) cl) \<Longrightarrow>
     perform L T cl s = (Inl (unexpected_keyword (build (self s) cl)), s)"
  by (simp add: perform_def Let_def)


lemma perform_success:
  "accepts (build (self s) cl) \<Longrightarrow> T (wire s) (build (self s) cl) = Inr resp \<Longrightarrow>
     is_success resp \<Longrightarrow>
     fst (perform L T cl s) = returns L cl resp"
  by (simp add: perform_def Let_def raise_for_status_def)


lemma client_of_net: "client_of m (srv\<lparr>net := w\<rparr>) = client_of m srv"
  by (cases m) simp_all







subsection \<open>Construction of the client\<close>

text \<open>
  C1. With no credential argument (or a falsy one) and no non-empty
  \<open>WORKATO_API_TOKEN\<close> in the environment, the constructor raises the configuration error;
  it has no transport to call, so no request precedes the error. With a credential from
  either source it returns a client whose headers are the bearer authorization built
  from that credential and the JSON content type.
\<close>

theorem construction:
  "(\<not> truthy token_arg \<and> \<not> truthy (getenv env ''WORKATO_API_TOKEN'') \<longrightarrow>
      WorkatoClient env token_arg url_arg = Inl (ValueError api_token_required))
   \<and> (truthy (py_or token_arg (getenv env ''WORKATO_API_TOKEN'')) \<longrightarrow>
        (\<exists>c. WorkatoClient env token_arg url_arg = Inr c
            \<and> api_token c = py_or token_arg (getenv env ''WORKATO_API_TOKEN'')
            \<and> headers c =
                [(''Authorization'', ''Bearer '' @ py_str (api_token c)),
                 (''Content-Type'', ''application/json'')]))"
  by (simp add: WorkatoClient_def Let_def py_or_def)

theorem construction_witness:
  "WorkatoClient Map.empty PNone PNone = Inl (ValueError api_token_required)
   \<and> (\<exists>c. WorkatoClient [''WORKATO_API_TOKEN'' \<mapsto> ''test_token''] PNone PNone = Inr c
          \<and> headers c = [(''Authorization'', ''Bearer test_token''),
                          (''Content-Type'', ''application/json'')])"
  using construction [of PNone Map.empty PNone]
    construction [of PNone "[''WORKATO_API_TOKEN'' \<mapsto> ''test_token'']" PNone]
  by (auto simp add: getenv_def py_or_def py_str_def)

subsection \<open>What the requests carry\<close>

lemma sent_build: "sent L T cl s = (if is_search cl then [] else [build (self s) cl])"
  by (simp add: sent_def perform_state accepts_build)

lemma kw_dict: "kw (PDict d) = Some (PDict d)"
  by (simp add: kw_def)

lemma test_client_constructed: "WorkatoClient test_environ PNone PNone = Inr test_client"
  by (simp add: WorkatoClient_def test_environ_def test_client_def getenv_def
      getenv_default_def py_or_def py_str_def Let_def)

text \<open>
  C3. The create and update operations with an envelope send exactly one request, whose
  JSON body nests the payload \<open>P\<close> under the key of the endpoint: \<open>recipe\<close> for
  \<open>create_recipe\<close> and \<open>update_recipe\<close>, \<open>export_manifest\<close> for the export manifests,
  \<open>lookup_table\<close> for \<open>create_lookup_table\<close>, \<open>data\<close> for adding and updating a row.
\<close>

theorem envelope_nesting:
  "map json (sent L T (Create_recipe P) s) = [Some (PDict [(''recipe'', PDict P)])]
   \<and> map json (sent L T (Update_recipe recipe_id P) s) = [Some (PDict [(''recipe'', PDict P)])]
   \<and> map json (sent L T (Create_export_manifest P) s)
       = [Some (PDict [(''export_manifest'', PDict P)])]
   \<and> map json (sent L T (Update_export_manifest manifest_id P) s)
       = [Some (PDict [(''export_manifest'', PDict P)])]
   \<and> map json (sent L T (Create_lookup_table P) s)
       = [Some (PDict [(''lookup_table'', PDict P)])]
   \<and> map json (sent L T (Add_lookup_table_row lookup_table_id P) s)
       = [Some (PDict [(''data'', PDict P)])]
   \<and> map json (sent L T (Update_lookup_table_row lookup_table_id row_id P) s)
       = [Some (PDict [(''data'', PDict P)])]"
  by (simp add: sent_build is_search_def kw_dict req_def Let_def)

text \<open>
  C10. \<open>search_custom_connectors\<close> asks for a \<open>GET\<close> on the search endpoint with the
  title as the JSON body \<open>{"title": title}\<close> and no query parameters, but it asks through
  \<open>get\<close>, which takes no \<open>json\<close> keyword: for every title the call raises
  \<open>TypeError\<close>, no request is issued and the state is as before. The tool ends in the
  same error.
\<close>

theorem search_call_refused:
  "build (self s) (Search_custom_connectors title)
     = \<lparr>verb = GET,
        url = py_str (base_url (self s)) @ ''/custom_connectors/search'',
        hdrs = headers (self s),
        params = None,
        json = Some (PDict [(''title'', title)]),
        content = None,
        follow_redirects = False\<rparr>
   \<and> perform L T (Search_custom_connectors title) s
     = (Inl (TypeError (''AsyncClient.get() got an unexpected keyword argument ''
                        @ [CHR 0x27] @ ''json'' @ [CHR 0x27])), s)
   \<and> sent L T (Search_custom_connectors title) s = []
   \<and> tool L T (Tool_search_custom_connectors title) srv
     = (Inl (TypeError (''AsyncClient.get() got an unexpected keyword argument ''
                        @ [CHR 0x27] @ ''json'' @ [CHR 0x27])), srv)"
proof -
  let ?cl = "Search_custom_connectors title"
  have refused: "\<not> accepts (build c ?cl)" for c
    by (simp add: accepts_def takes_body_def req_def kw_def)
  have err: "unexpected_keyword (build c ?cl)
      = TypeError (''AsyncClient.get() got an unexpected keyword argument ''
                   @ [CHR 0x27] @ ''json'' @ [CHR 0x27])" for c
    by (simp add: unexpected_keyword_def verb_name_def req_def kw_def)
  have p: "perform L T ?cl st
      = (Inl (TypeError (''AsyncClient.get() got an unexpected keyword argument ''
                         @ [CHR 0x27] @ ''json'' @ [CHR 0x27])), st)" for st
    using perform_refused [OF refused, of L T st] by (simp only: err)
  have "tool L T (Tool_search_custom_connectors title) srv
      = (Inl (TypeError (''AsyncClient.get() got an unexpected keyword argument ''
                         @ [CHR 0x27] @ ''json'' @ [CHR 0x27])), srv)"
    by (simp add: returning_def await_def p)
  moreover have "build (self s) ?cl
     = \<lparr>verb = GET,
        url = py_str (base_url (self s)) @ ''/custom_connectors/search'',
        hdrs = headers (self s),
        params = None,
        json = Some (PDict [(''title'', title)]),
        content = None,
        follow_redirects = False\<rparr>"
    by (simp add: kw_dict req_def at_def Let_def)
  moreover have "sent L T ?cl s = []"
    by (simp add: sent_build is_search_def)
  ultimately show ?thesis
    using p [of s] by simp
qed

text \<open>
  C2, as stated, fails: \<open>test_recipe\<close> without \<open>input_data\<close> sends the empty object
  \<open>{}\<close> as its JSON body (\<open>json=input_data or {}\<close>).
\<close>

theorem test_recipe_sends_empty_object:
  "json (build test_client (Test_recipe (PInt 1) None)) = Some (PDict [])"
  by (simp add: req_def kw_def py_or_def opt_dict_def)

lemma dict_update_nil: "dict_update d [] = d"
  by (simp add: dict_update_def)

text \<open>
  C2, amended. An optional argument that is unset or falsy is left out of the query or
  the body in \<open>get_recipes\<close>, \<open>get_jobs\<close>, \<open>copy_recipe\<close> (whose body is then absent),
  \<open>generate_schema_from_csv\<close>, \<open>list_connections\<close>, \<open>disconnect_connection\<close>,
  \<open>import_package\<close> (\<open>folder_id_for_home_assets\<close>), \<open>get_folder_assets\<close> (the two
  flags; \<open>folder_id\<close> is left out only when it is \<open>None\<close>) and
  \<open>list_lookup_table_rows\<close> (\<open>filters\<close>). Always sent, whatever their value: the page
  numbers \<open>page\<close> and \<open>per_page\<close>, and the flags \<open>restart_recipes\<close> and
  \<open>include_tags\<close> of \<open>import_package\<close>, as lower-case text. \<open>test_recipe\<close> always sends
  a JSON object, the empty one when \<open>input_data\<close> is unset or empty.
\<close>

theorem optional_parameters:
  "map params (sent L T (Get_recipes include_tags) s)
     = [Some (PDict (if truthy include_tags then [(''includes[]'', PStr ''tags'')] else []))]
   \<and> map params (sent L T (Get_jobs recipe_id status limit) s)
     = [Some (PDict (filter (\<lambda>(k, v). truthy v)
          [(''recipe_id'', recipe_id), (''status'', status), (''limit'', limit)]))]
   \<and> map json (sent L T (Copy_recipe recipe_id folder_id) s)
     = [if truthy folder_id then Some (PDict [(''folder_id'', folder_id)]) else None]
   \<and> map json (sent L T (Generate_schema_from_csv sample col_sep) s)
     = [Some (PDict ((''sample'', sample) # filter (\<lambda>(k, v). truthy v) [(''col_sep'', col_sep)]))]
   \<and> map params (sent L T (List_connections folder_id parent_id external_id
         include_runtime_connections includes) s)
     = [Some (PDict (filter (\<lambda>(k, v). truthy v)
          [(''folder_id'', folder_id), (''parent_id'', parent_id),
           (''external_id'', external_id),
           (''include_runtime_connections'', include_runtime_connections),
           (''includes[]'', opt_list includes)]))]
   \<and> map json (sent L T (Disconnect_connection connection_id force) s)
     = [if truthy force then Some (PDict [(''force'', force)]) else None]
   \<and> map params (sent L T (Import_package folder_id file_bytes restart_recipes include_tags
         folder_id_for_home_assets) s)
     = [Some (PDict ([(''restart_recipes'', PStr (py_lower (py_str restart_recipes))),
                      (''include_tags'', PStr (py_lower (py_str include_tags)))]
                     @ filter (\<lambda>(k, v). truthy v)
                         [(''folder_id_for_home_assets'', folder_id_for_home_assets)]))]
   \<and> map params (sent L T (Get_folder_assets folder_id include_test_cases include_data) s)
     = [Some (PDict (filter (\<lambda>(k, v). v \<noteq> PNone) [(''folder_id'', folder_id)]
                     @ (if truthy include_test_cases
                        then [(''include_test_cases'', PStr (py_lower (py_str include_test_cases)))]
                        else [])
                     @ (if truthy include_data
                        then [(''include_data'', PStr (py_lower (py_str include_data)))]
                        else [])))]
   \<and> map params (sent L T (List_lookup_table_rows lookup_table_id page per_page filters) s)
     = [Some (PDict (dict_update [(''page'', page), (''per_page'', per_page)]
                       (case filters of None \<Rightarrow> [] | Some kvs \<Rightarrow> kvs)))]
   \<and> map params (sent L T (Get_recipe_versions recipe_id page per_page) s)
     = [Some (PDict [(''page'', page), (''per_page'', per_page)])]
   \<and> map params (sent L T (List_lookup_tables page per_page) s)
     = [Some (PDict [(''page'', page), (''per_page'', per_page)])]
   \<and> map json (sent L T (Test_recipe recipe_id input_data) s)
     = [Some (PDict (case input_data of None \<Rightarrow> [] | Some d \<Rightarrow> d))]"
proof (intro conjI)
  show "map params (sent L T (Get_recipes include_tags) s)
     = [Some (PDict (if truthy include_tags then [(''includes[]'', PStr ''tags'')] else []))]"
    by (simp add: sent_build is_search_def kw_dict req_def Let_def)
  show "map params (sent L T (Get_jobs recipe_id status limit) s)
     = [Some (PDict (filter (\<lambda>(k, v). truthy v)
          [(''recipe_id'', recipe_id), (''status'', status), (''limit'', limit)]))]"
    by (simp add: sent_build is_search_def kw_dict req_def Let_def)
  show "map json (sent L T (Copy_recipe recipe_id folder_id) s)
     = [if truthy folder_id then Some (PDict [(''folder_id'', folder_id)]) else None]"
    by (simp add: sent_build is_search_def kw_def req_def Let_def)
  show "map json (sent L T (Generate_schema_from_csv sample col_sep) s)
     = [Some (PDict ((''sample'', sample) # filter (\<lambda>(k, v). truthy v) [(''col_sep'', col_sep)]))]"
    by (simp add: sent_build is_search_def kw_dict req_def Let_def)
  show "map params (sent L T (List_connections folder_id parent_id external_id
         include_runtime_connections includes) s)
     = [Some (PDict (filter (\<lambda>(k, v). truthy v)
          [(''folder_id'', folder_id), (''parent_id'', parent_id),
           (''external_id'', external_id),
           (''include_runtime_connections'', include_runtime_connections),
           (''includes[]'', opt_list includes)]))]"
    by (simp add: sent_build is_search_def kw_dict req_def Let_def)
  show "map json (sent L T (Disconnect_connection connection_id force) s)
     = [if truthy force then Some (PDict [(''force'', force)]) else None]"
    by (simp add: sent_build is_search_def kw_def req_def Let_def)
  show "map params (sent L T (Import_package folder_id file_bytes restart_recipes include_tags
         folder_id_for_home_assets) s)
     = [Some (PDict ([(''restart_recipes'', PStr (py_lower (py_str restart_recipes))),
                      (''include_tags'', PStr (py_lower (py_str include_tags)))]
                     @ filter (\<lambda>(k, v). truthy v)
                         [(''folder_id_for_home_assets'', folder_id_for_home_assets)]))]"
    by (simp add: sent_build is_search_def kw_dict req_def Let_def)
  show "map params (sent L T (Get_folder_assets folder_id include_test_cases include_data) s)
     = [Some (PDict (filter (\<lambda>(k, v). v \<noteq> PNone) [(''folder_id'', folder_id)]
                     @ (if truthy include_test_cases
                        then [(''include_test_cases'', PStr (py_lower (py_str include_test_cases)))]
                        else [])
                     @ (if truthy include_data
                        then [(''include_data'', PStr (py_lower (py_str include_data)))]
                        else [])))]"
    by (simp add: sent_build is_search_def kw_dict req_def Let_def)
  show "map params (sent L T (List_lookup_table_rows lookup_table_id page per_page filters) s)
     = [Some (PDict (dict_update [(''page'', page), (''per_page'', per_page)]
                       (case filters of None \<Rightarrow> [] | Some kvs \<Rightarrow> kvs)))]"
    by (cases filters) (simp_all add: sent_build is_search_def kw_dict req_def Let_def opt_dict_def dict_update_nil)
  show "map params (sent L T (Get_recipe_versions recipe_id page per_page) s)
     = [Some (PDict [(''page'', page), (''per_page'', per_page)])]"
    by (simp add: sent_build is_search_def kw_dict req_def Let_def)
  show "map params (sent L T (List_lookup_tables page per_page) s)
     = [Some (PDict [(''page'', page), (''per_page'', per_page)])]"
    by (simp add: sent_build is_search_def kw_dict req_def Let_def)
  show "map json (sent L T (Test_recipe recipe_id input_data) s)
     = [Some (PDict (case input_data of None \<Rightarrow> [] | Some d \<Rightarrow> d))]"
    by (cases input_data) (simp_all add: sent_build is_search_def kw_def req_def py_or_def opt_dict_def)
qed

text \<open>
  C7, as stated, fails: \<open>get_folder_assets\<close> tests \<open>folder_id is not None\<close>, so a
  \<open>folder_id\<close> of \<open>0\<close> is sent, and the request differs from the one without it.
\<close>

theorem folder_assets_sends_zero:
  "params (build test_client (Get_folder_assets (PInt 0) (PBool False) (PBool False)))
     = Some (PDict [(''folder_id'', PInt 0)])
   \<and> params (build test_client (Get_folder_assets PNone (PBool False) (PBool False)))
     = Some (PDict [])"
  by (simp add: req_def kw_def)

text \<open>
  C7, amended. \<open>get_jobs\<close> (\<open>recipe_id\<close>, \<open>limit\<close>), \<open>copy_recipe\<close> (\<open>folder_id\<close>) and
  \<open>list_connections\<close> (\<open>folder_id\<close>) treat a falsy value, \<open>0\<close> among them, as not
  supplied: the request is the one built for \<open>None\<close>. \<open>get_folder_assets\<close> leaves
  \<open>folder_id\<close> out only when it is \<open>None\<close> and sends every other value, \<open>0\<close> too.
\<close>

theorem falsy_filters_omitted:
  assumes "\<not> truthy v"
  shows "sent L T (Get_jobs v status limit) s = sent L T (Get_jobs PNone status limit) s
    \<and> sent L T (Get_jobs recipe_id status v) s = sent L T (Get_jobs recipe_id status PNone) s
    \<and> sent L T (Copy_recipe recipe_id v) s = sent L T (Copy_recipe recipe_id PNone) s
    \<and> sent L T (List_connections v parent_id external_id include_runtime_connections includes) s
        = sent L T (List_connections PNone parent_id external_id include_runtime_connections
            includes) s
    \<and> (v \<noteq> PNone \<longrightarrow>
         map params (sent L T (Get_folder_assets v include_test_cases include_data) s)
           \<noteq> map params (sent L T (Get_folder_assets PNone include_test_cases include_data) s)
         \<and> map params (sent L T (Get_folder_assets v (PBool False) (PBool False)) s)
           = [Some (PDict [(''folder_id'', v)])])"
  using assms by (simp add: sent_build is_search_def kw_def req_def Let_def)

theorem falsy_filters_omitted_witness:
  "sent (\<lambda>b. None) (always 200 []) (Get_jobs (PInt 0) (PStr ''success'') (PInt 0))
       \<lparr>self = test_client, wire = []\<rparr>
     = sent (\<lambda>b. None) (always 200 []) (Get_jobs PNone (PStr ''success'') PNone)
         \<lparr>self = test_client, wire = []\<rparr>
   \<and> map params (sent (\<lambda>b. None) (always 200 []) (Get_jobs (PInt 0) (PStr ''success'') (PInt 0))
       \<lparr>self = test_client, wire = []\<rparr>) = [Some (PDict [(''status'', PStr ''success'')])]
   \<and> map json (sent (\<lambda>b. None) (always 200 []) (Copy_recipe (PInt 1) (PInt 0))
       \<lparr>self = test_client, wire = []\<rparr>) = [None]
   \<and> map params (sent (\<lambda>b. None) (always 200 [])
         (Get_folder_assets (PInt 0) (PBool False) (PBool False))
         \<lparr>self = test_client, wire = []\<rparr>) = [Some (PDict [(''folder_id'', PInt 0)])]"
  using falsy_filters_omitted [of "PInt 0" "\<lambda>b. None" "always 200 []" "PStr ''success''" "PInt 0"
      "\<lparr>self = test_client, wire = []\<rparr>" "PInt 0" "PInt 1"]
  by (simp add: sent_build is_search_def kw_def req_def Let_def)

subsection \<open>The base URL\<close>

text \<open>
  C6, as stated, fails: with the credential set and \<open>WORKATO_BASE_URL\<close> not set, the
  server does not start; its validation of the environment lists the variable as required.
\<close>

theorem server_needs_base_url:
  "server_start [''WORKATO_API_TOKEN'' \<mapsto> ''test_token'']
     = Inl (ValueError ''Missing required environment variables: WORKATO_BASE_URL'')"
  by (simp add: server_start_def import_tool_modules_def WorkatoClient_def missing_vars_def
      required_env_vars_def getenv_def getenv_default_def py_or_def Let_def)

lemma import_tool_modules_fail:
  "\<not> truthy (getenv env ''WORKATO_API_TOKEN'') \<Longrightarrow>
     import_tool_modules env = Inl (ValueError api_token_required)"
  by (simp add: import_tool_modules_def WorkatoClient_def py_or_def Let_def)

lemma import_tool_modules_ok:
  "truthy (getenv env ''WORKATO_API_TOKEN'') \<Longrightarrow> \<exists>srv. import_tool_modules env = Inr srv"
  by (simp add: import_tool_modules_def WorkatoClient_def py_or_def Let_def)

text \<open>
  C6, amended. The base URL is optional for the client: with a credential, no base URL
  argument and no \<open>WORKATO_BASE_URL\<close>, construction succeeds with the default URL.
  The server starts exactly when both \<open>WORKATO_API_TOKEN\<close> and
  \<open>WORKATO_BASE_URL\<close> are set and non-empty; with the credential alone it raises the
  error that names \<open>WORKATO_BASE_URL\<close> as missing.
\<close>

theorem base_url_default:
  "(truthy (py_or token_arg (getenv env ''WORKATO_API_TOKEN'')) \<and> \<not> truthy url_arg
      \<and> env ''WORKATO_BASE_URL'' = None \<longrightarrow>
      (\<exists>c. WorkatoClient env token_arg url_arg = Inr c
           \<and> base_url c = PStr ''https://www.workato.com/api''))
   \<and> ((\<exists>srv. server_start env = Inr srv) \<longleftrightarrow>
        truthy (getenv env ''WORKATO_API_TOKEN'') \<and> truthy (getenv env ''WORKATO_BASE_URL''))
   \<and> (truthy (getenv env ''WORKATO_API_TOKEN'') \<and> \<not> truthy (getenv env ''WORKATO_BASE_URL'')
        \<longrightarrow> server_start env
             = Inl (ValueError ''Missing required environment variables: WORKATO_BASE_URL''))"
proof (intro conjI)
  show "truthy (py_or token_arg (getenv env ''WORKATO_API_TOKEN'')) \<and> \<not> truthy url_arg
      \<and> env ''WORKATO_BASE_URL'' = None \<longrightarrow>
      (\<exists>c. WorkatoClient env token_arg url_arg = Inr c
           \<and> base_url c = PStr ''https://www.workato.com/api'')"
    by (simp add: WorkatoClient_def Let_def py_or_def getenv_default_def)
  have mv: "missing_vars env = [] \<longleftrightarrow>
      truthy (getenv env ''WORKATO_API_TOKEN'') \<and> truthy (getenv env ''WORKATO_BASE_URL'')"
    by (simp add: missing_vars_def required_env_vars_def)
  show "(\<exists>srv. server_start env = Inr srv) \<longleftrightarrow>
        truthy (getenv env ''WORKATO_API_TOKEN'') \<and> truthy (getenv env ''WORKATO_BASE_URL'')"
  proof (cases "truthy (getenv env ''WORKATO_API_TOKEN'')")
    case True
    then obtain srv where "import_tool_modules env = Inr srv"
      using import_tool_modules_ok by blast
    with True mv show ?thesis
      by (simp add: server_start_def)
  next
    case False
    then show ?thesis
      by (simp add: server_start_def import_tool_modules_fail)
  qed
  show "truthy (getenv env ''WORKATO_API_TOKEN'') \<and> \<not> truthy (getenv env ''WORKATO_BASE_URL'')
        \<longrightarrow> server_start env
             = Inl (ValueError ''Missing required environment variables: WORKATO_BASE_URL'')"
  proof
    assume a: "truthy (getenv env ''WORKATO_API_TOKEN'') \<and> \<not> truthy (getenv env ''WORKATO_BASE_URL'')"
    then obtain srv where "import_tool_modules env = Inr srv"
      using import_tool_modules_ok by blast
    with a show "server_start env
             = Inl (ValueError ''Missing required environment variables: WORKATO_BASE_URL'')"
      by (simp add: server_start_def missing_vars_def required_env_vars_def)
  qed
qed

theorem base_url_default_witness:
  "(\<exists>c. WorkatoClient [''WORKATO_API_TOKEN'' \<mapsto> ''test_token''] PNone PNone = Inr c
        \<and> base_url c = PStr ''https://www.workato.com/api'')
   \<and> (\<exists>srv. server_start test_environ = Inr srv)
   \<and> server_start [''WORKATO_API_TOKEN'' \<mapsto> ''test_token'']
       = Inl (ValueError ''Missing required environment variables: WORKATO_BASE_URL'')"
  using base_url_default [of PNone "[''WORKATO_API_TOKEN'' \<mapsto> ''test_token'']" PNone]
    base_url_default [of PNone test_environ PNone]
  by (simp add: getenv_def py_or_def test_environ_def)

subsection \<open>Failures of the remote platform\<close>



subsection \<open>The header set\<close>

lemma hdrs_build:
  "hdrs (build c cl)
     = (if is_import_package cl
        then dict_update (headers c) [(''Content-Type'', ''application/octet-stream'')]
        else headers c)"
  by (cases cl) (simp_all add: is_import_package_def req_def Let_def)

lemma perform_all_state:
  "perform_all L T cls s
     = s\<lparr>wire := wire s @ map (build (self s)) (filter (\<lambda>cl. accepts (build (self s) cl)) cls)\<rparr>"
proof (induction cls arbitrary: s)
  case Nil
  show ?case by simp
next
  case (Cons cl cls)
  show ?case
    by (simp add: Cons.IH perform_state)
qed

text \<open>
  C9. After any sequence of calls on a constructed client, the client object (token, base
  URL and headers) is the one the constructor returned. Every call passes exactly its
  header set, except \<open>import_package\<close>, which passes a copy with the content type
  replaced by \<open>application/octet-stream\<close>; so the requests issued, one for every call
  that is not refused, carry these headers in the order of the calls, and the requests
  after an \<open>import_package\<close> carry the unchanged set again.
\<close>

theorem client_never_mutated:
  assumes "WorkatoClient env token_arg url_arg = Inr c"
  shows "self (perform_all L T cls \<lparr>self = c, wire = []\<rparr>) = c
    \<and> headers c = [(''Authorization'', ''Bearer '' @ py_str (api_token c)),
                   (''Content-Type'', ''application/json'')]
    \<and> map (\<lambda>cl. hdrs (build c cl)) cls
        = map (\<lambda>cl. if is_import_package cl
                     then [(''Authorization'', ''Bearer '' @ py_str (api_token c)),
                           (''Content-Type'', ''application/octet-stream'')]
                     else headers c) cls
    \<and> wire (perform_all L T cls \<lparr>self = c, wire = []\<rparr>)
        = map (build c) (filter (\<lambda>cl. accepts (build c cl)) cls)"
proof -
  from assms have h: "headers c = [(''Authorization'', ''Bearer '' @ py_str (api_token c)),
                   (''Content-Type'', ''application/json'')]"
    by (auto simp add: WorkatoClient_def Let_def split: if_splits)
  have "dict_update (headers c) [(''Content-Type'', ''application/octet-stream'')]
      = [(''Authorization'', ''Bearer '' @ py_str (api_token c)),
         (''Content-Type'', ''application/octet-stream'')]"
    by (simp add: h dict_update_def)
  then show ?thesis
    using h by (simp add: perform_all_state hdrs_build)
qed

theorem client_never_mutated_witness:
  "self (perform_all (\<lambda>b. None) (always 500 [])
      [Get_folders, Import_package (PInt 7) [80, 75] (PBool False) (PBool False) PNone,
       Search_custom_connectors (PStr ''x''), Get_connections]
      \<lparr>self = test_client, wire = []\<rparr>) = test_client
   \<and> map hdrs (wire (perform_all (\<lambda>b. None) (always 500 [])
      [Get_folders, Import_package (PInt 7) [80, 75] (PBool False) (PBool False) PNone,
       Search_custom_connectors (PStr ''x''), Get_connections]
      \<lparr>self = test_client, wire = []\<rparr>))
     = [headers test_client,
        [(''Authorization'', ''Bearer test_token''),
         (''Content-Type'', ''application/octet-stream'')],
        headers test_client]"
proof -
  note t = client_never_mutated [OF test_client_constructed, of "\<lambda>b. None" "always 500 []"
      "[Get_folders, Import_package (PInt 7) [80, 75] (PBool False) (PBool False) PNone,
        Search_custom_connectors (PStr ''x''), Get_connections]"]
  note w = t [THEN conjunct2, THEN conjunct2, THEN conjunct2]
  have "map hdrs (map (build test_client) (filter (\<lambda>cl. accepts (build test_client cl))
      [Get_folders, Import_package (PInt 7) [80, 75] (PBool False) (PBool False) PNone,
       Search_custom_connectors (PStr ''x''), Get_connections]))
     = [headers test_client,
        [(''Authorization'', ''Bearer test_token''),
         (''Content-Type'', ''application/octet-stream'')],
        headers test_client]"
    by (simp add: accepts_def takes_body_def req_def kw_def Let_def test_client_def
        dict_update_def)
  then have "map hdrs (wire (perform_all (\<lambda>b. None) (always 500 [])
      [Get_folders, Import_package (PInt 7) [80, 75] (PBool False) (PBool False) PNone,
       Search_custom_connectors (PStr ''x''), Get_connections]
      \<lparr>self = test_client, wire = []\<rparr>))
     = [headers test_client,
        [(''Authorization'', ''Bearer test_token''),
         (''Content-Type'', ''application/octet-stream'')],
        headers test_client]"
    by (simp only: w)
  with t [THEN conjunct1] show ?thesis
    by (rule conjI)
qed

subsection \<open>Results of the tools\<close>

lemma list_jobs_result:
  "fst (list_jobs L T a b c s)
     = (case fst (perform L T (Get_jobs a b c) s) of Inl e \<Rightarrow> Inl e | Inr jobs \<Rightarrow> found ''jobs'' jobs)"
  by (auto simp add: list_jobs_def split: prod.splits sum.splits)

lemma list_jobs_state:
  "snd (list_jobs L T a b c s) = snd (perform L T (Get_jobs a b c) s)"
  by (simp add: list_jobs_def split: prod.splits sum.splits)











lemma sample_jobs_text:
  "py_str (PList SAMPLE_JOBS)
     = ''[{'id': 101, 'recipe_id': 1, 'status': 'success'}, {'id': 102, 'recipe_id': 1, 'status': 'error'}]''"
  by code_simp

lemma str_nat_2: "str_nat 2 = ''2''"
  by code_simp

text \<open>
  C8. \<open>get_jobs\<close> with \<open>recipe_id=1\<close>, \<open>status="success"\<close>, \<open>limit=10\<close> issues one
  \<open>GET\<close> on the jobs endpoint with exactly these three query parameters; the
  \<open>list_jobs\<close> tool issues that request and nothing else, and when the answer is a
  list of job records, it returns a string that holds their count and, after it, the text
  of the list.
\<close>

theorem list_jobs_scenario:
  "sent L T (Get_jobs (PInt 1) (PStr ''success'') (PInt 10)) s
     = [\<lparr>verb = GET,
         url = py_str (base_url (self s)) @ ''/jobs'',
         hdrs = headers (self s),
         params = Some (PDict [(''recipe_id'', PInt 1), (''status'', PStr ''success''),
                               (''limit'', PInt 10)]),
         json = None,
         content = None,
         follow_redirects = False\<rparr>]
   \<and> snd (list_jobs L T (PInt 1) (PStr ''success'') (PInt 10) s)
     = s\<lparr>wire := wire s @ sent L T (Get_jobs (PInt 1) (PStr ''success'') (PInt 10)) s\<rparr>
   \<and> (T (wire s) (build (self s) (Get_jobs (PInt 1) (PStr ''success'') (PInt 10))) = Inr resp
        \<and> is_success resp \<and> L (body resp) = Some (PList jobs) \<longrightarrow>
        (\<exists>before between.
           fst (list_jobs L T (PInt 1) (PStr ''success'') (PInt 10) s)
             = Inr (PStr (before @ str_nat (length jobs) @ between @ py_str (PList jobs)))))"
proof (intro conjI impI)
  show "sent L T (Get_jobs (PInt 1) (PStr ''success'') (PInt 10)) s
     = [\<lparr>verb = GET,
         url = py_str (base_url (self s)) @ ''/jobs'',
         hdrs = headers (self s),
         params = Some (PDict [(''recipe_id'', PInt 1), (''status'', PStr ''success''),
                               (''limit'', PInt 10)]),
         json = None,
         content = None,
         follow_redirects = False\<rparr>]"
    by (simp add: sent_build is_search_def kw_dict req_def at_def Let_def)
  show "snd (list_jobs L T (PInt 1) (PStr ''success'') (PInt 10) s)
     = s\<lparr>wire := wire s @ sent L T (Get_jobs (PInt 1) (PStr ''success'') (PInt 10)) s\<rparr>"
    by (simp add: list_jobs_state perform_state sent_build is_search_def accepts_def takes_body_def
        req_def kw_def)
next
  assume a: "T (wire s) (build (self s) (Get_jobs (PInt 1) (PStr ''success'') (PInt 10))) = Inr resp
        \<and> is_success resp \<and> L (body resp) = Some (PList jobs)"
  then have "fst (perform L T (Get_jobs (PInt 1) (PStr ''success'') (PInt 10)) s)
      = Inr (PList jobs)"
    by (simp add: perform_success returns_def response_json_def accepts_def takes_body_def req_def kw_def)
  then have "fst (list_jobs L T (PInt 1) (PStr ''success'') (PInt 10) s) = found ''jobs'' (PList jobs)"
    by (simp add: list_jobs_result)
  then have "fst (list_jobs L T (PInt 1) (PStr ''success'') (PInt 10) s)
      = Inr (PStr (''Found '' @ str_nat (length jobs) @ ('' jobs:'' @ [nl, nl])
                   @ py_str (PList jobs)))"
    by (simp add: found_def py_len_def)
  then show "\<exists>before between.
           fst (list_jobs L T (PInt 1) (PStr ''success'') (PInt 10) s)
             = Inr (PStr (before @ str_nat (length jobs) @ between @ py_str (PList jobs)))"
    by blast
qed

theorem list_jobs_scenario_witness:
  "sent (\<lambda>b. Some (PList SAMPLE_JOBS)) (always 200 []) (Get_jobs (PInt 1) (PStr ''success'') (PInt 10))
       \<lparr>self = test_client, wire = []\<rparr>
     = [\<lparr>verb = GET,
         url = ''https://test.workato.com/api/jobs'',
         hdrs = [(''Authorization'', ''Bearer test_token''),
                 (''Content-Type'', ''application/json'')],
         params = Some (PDict [(''recipe_id'', PInt 1), (''status'', PStr ''success''),
                               (''limit'', PInt 10)]),
         json = None,
         content = None,
         follow_redirects = False\<rparr>]
   \<and> fst (list_jobs (\<lambda>b. Some (PList SAMPLE_JOBS)) (always 200 []) (PInt 1) (PStr ''success'')
         (PInt 10) \<lparr>self = test_client, wire = []\<rparr>)
     = Inr (PStr (''Found 2 jobs:'' @ [nl, nl]
         @ ''[{'id': 101, 'recipe_id': 1, 'status': 'success'}, {'id': 102, 'recipe_id': 1, 'status': 'error'}]''))"
proof -
  have two: "length SAMPLE_JOBS = 2"
    by (simp add: SAMPLE_JOBS_def)
  have "fst (list_jobs (\<lambda>b. Some (PList SAMPLE_JOBS)) (always 200 []) (PInt 1) (PStr ''success'')
         (PInt 10) \<lparr>self = test_client, wire = []\<rparr>) = found ''jobs'' (PList SAMPLE_JOBS)"
    by (simp add: list_jobs_result perform_def Let_def always_def raise_for_status_def
        is_success_def returns_def response_json_def accepts_def takes_body_def req_def kw_def)
  then have r: "fst (list_jobs (\<lambda>b. Some (PList SAMPLE_JOBS)) (always 200 []) (PInt 1) (PStr ''success'')
         (PInt 10) \<lparr>self = test_client, wire = []\<rparr>)
     = Inr (PStr (''Found 2 jobs:'' @ [nl, nl] @ py_str (PList SAMPLE_JOBS)))"
    by (simp add: found_def py_len_def two str_nat_2)
  have "sent (\<lambda>b. Some (PList SAMPLE_JOBS)) (always 200 [])
        (Get_jobs (PInt 1) (PStr ''success'') (PInt 10)) \<lparr>self = test_client, wire = []\<rparr>
     = [\<lparr>verb = GET,
         url = ''https://test.workato.com/api/jobs'',
         hdrs = [(''Authorization'', ''Bearer test_token''),
                 (''Content-Type'', ''application/json'')],
         params = Some (PDict [(''recipe_id'', PInt 1), (''status'', PStr ''success''),
                               (''limit'', PInt 10)]),
         json = None,
         content = None,
         follow_redirects = False\<rparr>]"
    using list_jobs_scenario [of "\<lambda>b. Some (PList SAMPLE_JOBS)" "always 200 []"
        "\<lparr>self = test_client, wire = []\<rparr>" "\<lparr>status_code = 200, body = []\<rparr>" SAMPLE_JOBS,
        THEN conjunct1]
    by (simp add: test_client_def py_str_def)
  moreover have "fst (list_jobs (\<lambda>b. Some (PList SAMPLE_JOBS)) (always 200 []) (PInt 1)
         (PStr ''success'') (PInt 10) \<lparr>self = test_client, wire = []\<rparr>)
     = Inr (PStr (''Found 2 jobs:'' @ [nl, nl]
         @ ''[{'id': 101, 'recipe_id': 1, 'status': 'success'}, {'id': 102, 'recipe_id': 1, 'status': 'error'}]''))"
    using r by (simp only: sample_jobs_text)
  ultimately show ?thesis
    by (rule conjI)
qed

end
